theory Spec2Isabelle
  imports Main
begin

section \<open>Python strings\<close>

text \<open>
  A Python \<open>str\<close> is modelled as a \<open>string\<close> (a list of characters with code points
  below 256). The newline character is \<open>CHR 0x0A\<close>.
\<close>

abbreviation NL :: char where
  "NL \<equiv> CHR 0x0A"

text \<open>\<open>str.isspace\<close> on one character, for the code points below 256.\<close>

definition py_isspace :: "char \<Rightarrow> bool" where
  "py_isspace c =
     (let n = (of_char c :: nat)
      in (9 \<le> n \<and> n \<le> 13) \<or> (28 \<le> n \<and> n \<le> 32) \<or> n = 133 \<or> n = 160)"

text \<open>\<open>s.strip()\<close>: leading and trailing whitespace removed.\<close>

definition strip :: "string \<Rightarrow> string" where
  "strip s = rev (dropWhile py_isspace (rev (dropWhile py_isspace s)))"

text \<open>\<open>sep.join(xs)\<close>.\<close>

fun py_join :: "string \<Rightarrow> string list \<Rightarrow> string" where
  "py_join sep [] = []"
| "py_join sep [x] = x"
| "py_join sep (x # y # ys) = x @ sep @ py_join sep (y # ys)"

text \<open>
  \<open>s.title()\<close> for ASCII letters: a letter that follows a letter is lower-cased, any
  other letter is upper-cased, everything else is copied and ends the word.
\<close>

definition is_ascii_lower :: "char \<Rightarrow> bool" where
  "is_ascii_lower c = (97 \<le> (of_char c :: nat) \<and> (of_char c :: nat) \<le> 122)"

definition is_ascii_upper :: "char \<Rightarrow> bool" where
  "is_ascii_upper c = (65 \<le> (of_char c :: nat) \<and> (of_char c :: nat) \<le> 90)"

definition ascii_upper :: "char \<Rightarrow> char" where
  "ascii_upper c = (if is_ascii_lower c then char_of ((of_char c :: nat) - 32) else c)"

definition ascii_lower :: "char \<Rightarrow> char" where
  "ascii_lower c = (if is_ascii_upper c then char_of ((of_char c :: nat) + 32) else c)"

fun title_loop :: "bool \<Rightarrow> string \<Rightarrow> string" where
  "title_loop previous_is_cased [] = []"
| "title_loop previous_is_cased (c # cs) =
     (if is_ascii_lower c then
        (if previous_is_cased then c else ascii_upper c) # title_loop True cs
      else if is_ascii_upper c then
        (if previous_is_cased then ascii_lower c else c) # title_loop True cs
      else c # title_loop False cs)"

definition py_title :: "string \<Rightarrow> string" where
  "py_title s = title_loop False s"

section \<open>The element table\<close>

text \<open>
  A cell of a frame that \<open>pd.read_csv\<close> returned (\<open>_ensure_csv\<close> reads the file with
  the default options):
  \<^item> \<open>Str c cs\<close> is a Python \<open>str\<close>, given by its first character and the rest:
    \<open>read_csv\<close> returns no empty string, an empty field is a missing value;
  \<^item> \<open>NaN\<close> is the missing value, a float;
  \<^item> \<open>Other c cs\<close> is a value that is neither a string nor missing (a number or a
    boolean, in a column that \<open>read_csv\<close> typed so), given by the text that \<open>str\<close>
    returns for it, which is not empty.
\<close>

datatype cell = Str char string | NaN | Other char string

text \<open>\<open>str(x)\<close> of a cell: the missing value prints as "nan".\<close>

fun py_str :: "cell \<Rightarrow> string" where
  "py_str (Str c cs) = c # cs"
| "py_str NaN = ''nan''"
| "py_str (Other c cs) = c # cs"

text \<open>The field that \<open>to_csv\<close> writes for a cell: nothing for the missing value.\<close>

fun written :: "cell \<Rightarrow> string" where
  "written (Str c cs) = c # cs"
| "written NaN = []"
| "written (Other c cs) = c # cs"

text \<open>
  One entry of \<open>column == s\<close> for a Python string \<open>s\<close>: only a string cell equals a
  string.
\<close>

fun eq_str :: "cell \<Rightarrow> string \<Rightarrow> bool" where
  "eq_str (Str c cs) s = (s = c # cs)"
| "eq_str NaN s = False"
| "eq_str (Other c cs) s = False"

text \<open>
  The cell for a Python string that the program puts into a frame. The program stores
  stripped titles and contents after the test that they are not blank, and the types of
  \<open>ELEMENT_TYPES\<close>. For the empty string, which no cell of a frame that was read holds,
  this is the value that it is written and read back as.
\<close>

fun text_cell :: "string \<Rightarrow> cell" where
  "text_cell [] = NaN"
| "text_cell (c # cs) = Str c cs"

fun is_str :: "cell \<Rightarrow> bool" where
  "is_str (Str c cs) = True"
| "is_str NaN = False"
| "is_str (Other c cs) = False"

text \<open>
  One row of \<open>prompt_elements.csv\<close>, with the columns of \<open>CSV_COLUMNS\<close>. The table
  accepts any value as the type.
\<close>

record element =
  title :: cell
  etype :: cell
  content :: cell

type_synonym dataframe = "element list"

definition ELEMENT_TYPES :: "string list" where
  "ELEMENT_TYPES = [''role'', ''goal'', ''audience'', ''context'', ''output'', ''tone'']"

definition CSV_COLUMNS :: "string list" where
  "CSV_COLUMNS = [''title'', ''type'', ''content'']"

section \<open>The prompt builder\<close>

text \<open>
  The value of a section's widget: \<open>st.selectbox\<close> gives one option, \<open>st.multiselect\<close>
  a list of options. The options are the strings "Skip" and "Write your own" and the
  titles of the section's elements; the selections here are selections of strings.
\<close>

datatype selection = SelStr string | SelList "string list"

text \<open>The dictionary that \<open>_create_section\<close> returns.\<close>

record section_data =
  selected :: selection
  custom :: string
  elements :: dataframe

text \<open>
  \<open>PromptBuilder._create_section\<close>: \<open>sel\<close> is the value of the selection widget and
  \<open>custom_text\<close> what the user typed into the custom widget, which is only shown (and
  read) when "Write your own" is chosen. \<open>multi_select\<close> is true exactly when the
  widget is the multiselect, whose value is a list, so the tests on it are the case
  distinction on the shape of \<open>sel\<close>. For a single choice the custom widget is
  \<open>st.text_input\<close>, called with the keyword \<open>height\<close>, which it does not have: the call
  raises \<open>TypeError\<close>, and the result is \<open>None\<close>.
\<close>

definition create_section ::
  "string \<Rightarrow> dataframe \<Rightarrow> selection \<Rightarrow> string \<Rightarrow> section_data option" where
  "create_section element_type df sel custom_text =
     (let elements = filter (\<lambda>e. eq_str (etype e) element_type) df
      in case sel of
           SelList l \<Rightarrow>
             (let wants_custom = (''Write your own'' \<in> set l);
                  custom_content = (if wants_custom then custom_text else [])
              in Some \<lparr> selected = sel, custom = strip custom_content,
                        elements = elements \<rparr>)
         | SelStr s \<Rightarrow>
             (let wants_custom = (s = ''Write your own'')
              in if wants_custom then None
                 else Some \<lparr> selected = sel, custom = strip [], elements = elements \<rparr>))"

text \<open>
  \<open>get_content_by_title\<close>, the local function of \<open>_generate_prompt\<close>: \<open>str\<close> of the
  content of the first row whose title equals the string, \<open>None\<close> when there is none.
\<close>

fun get_content_by_title :: "dataframe \<Rightarrow> string \<Rightarrow> string option" where
  "get_content_by_title [] t = None"
| "get_content_by_title (e # df) t =
     (if eq_str (title e) t then Some (py_str (content e)) else get_content_by_title df t)"

text \<open>The skip test at the head of the loop over the sections.\<close>

definition skip_logic :: "selection \<Rightarrow> bool" where
  "skip_logic sel =
     (case sel of
        SelList l \<Rightarrow> l = [] \<or> set l = {''Skip''}
      | SelStr s \<Rightarrow> s = ''Skip'')"

definition section_title_of :: "string \<Rightarrow> string" where
  "section_title_of section =
     (if section = ''audience'' then ''Target Audience'' else py_title section)"

definition multi_sections :: "string list" where
  "multi_sections = [''audience'', ''context'', ''output'']"

text \<open>
  The inner loop \<open>for item in sel\<close> of a multi-select section; \<open>parts\<close> is the list
  being appended to.
\<close>

fun collect_parts :: "dataframe \<Rightarrow> string list \<Rightarrow> string list \<Rightarrow> string list" where
  "collect_parts df [] parts = parts"
| "collect_parts df (item # rest) parts =
     (if item = ''Skip'' \<or> item = ''Write your own'' then collect_parts df rest parts
      else (case get_content_by_title df item of
              None \<Rightarrow> collect_parts df rest parts
            | Some c \<Rightarrow> if c \<noteq> [] then collect_parts df rest (parts @ [c])
                        else collect_parts df rest parts))"

text \<open>
  The body of the loop over the sections: the block appended to \<open>prompt_parts\<close>, or
  \<open>None\<close> when the iteration appends nothing (\<open>continue\<close>, or empty content).
\<close>

definition section_block :: "dataframe \<Rightarrow> string \<Rightarrow> section_data \<Rightarrow> string option" where
  "section_block df section data =
     (let sel = selected data in
      if skip_logic sel then None
      else
        let section_title = section_title_of section in
        if section \<in> set multi_sections then
          (let parts = (case sel of SelList l \<Rightarrow> collect_parts df l [] | SelStr s \<Rightarrow> []);
               parts = (if custom data \<noteq> [] then parts @ [custom data] else parts);
               content = py_join [NL] (filter (\<lambda>p. p \<noteq> []) parts)
           in if content \<noteq> [] then Some (section_title @ '':'' @ [NL] @ content) else None)
        else
          (let content = (case sel of
                            SelStr s \<Rightarrow> if s = ''Write your own'' then Some (custom data)
                                        else get_content_by_title df s
                          | SelList l \<Rightarrow> get_content_by_title df '''')
           in case content of
                None \<Rightarrow> None
              | Some c \<Rightarrow> if c \<noteq> [] then Some (section_title @ '': '' @ c) else None))"

text \<open>The loop \<open>for section, data in selections.items()\<close>, in the dictionary's order.\<close>

fun generate_loop ::
  "dataframe \<Rightarrow> (string \<times> section_data) list \<Rightarrow> string list \<Rightarrow> string list" where
  "generate_loop df [] prompt_parts = prompt_parts"
| "generate_loop df ((section, data) # rest) prompt_parts =
     (case section_block df section data of
        None \<Rightarrow> generate_loop df rest prompt_parts
      | Some block \<Rightarrow> generate_loop df rest (prompt_parts @ [block]))"

definition feedback_text :: string where
  "feedback_text =
     [NL, NL] @ ''Before you provide the response, ask any clarifying questions that ''
       @ ''would improve the output. If you already have enough info, proceed.''"

text \<open>\<open>PromptBuilder._generate_prompt\<close>.\<close>

definition generate_prompt ::
  "(string \<times> section_data) list \<Rightarrow> dataframe \<Rightarrow> bool \<Rightarrow> string" where
  "generate_prompt selections df recursive_feedback =
     (let prompt = py_join [NL, NL] (generate_loop df selections [])
      in if recursive_feedback then prompt @ feedback_text else prompt)"

text \<open>
  What the user has set in the widgets of the prompt builder: the choice of every
  section, the text typed into the custom widget of a section (by element type), and
  the checkbox.
\<close>

record widgets =
  w_role :: string
  w_goal :: string
  w_audience :: "string list"
  w_context :: "string list"
  w_output :: "string list"
  w_tone :: string
  w_custom :: "string \<Rightarrow> string"
  w_recursive_feedback :: bool

text \<open>
  \<open>PromptBuilder.render\<close> up to the prompt that it hands to \<open>_display_prompt\<close>: the six
  sections are created in the order role, goal, audience, context, output, tone, which
  is the order of the dictionary; \<open>None\<close> when a call of \<open>_create_section\<close> raises.
\<close>

definition render :: "dataframe \<Rightarrow> widgets \<Rightarrow> string option" where
  "render df w =
     Option.bind (create_section ''role'' df (SelStr (w_role w)) (w_custom w ''role''))
       (\<lambda>role.
     Option.bind (create_section ''goal'' df (SelStr (w_goal w)) (w_custom w ''goal''))
       (\<lambda>goal.
     Option.bind (create_section ''audience'' df (SelList (w_audience w))
                    (w_custom w ''audience''))
       (\<lambda>audience.
     Option.bind (create_section ''context'' df (SelList (w_context w))
                    (w_custom w ''context''))
       (\<lambda>context.
     Option.bind (create_section ''output'' df (SelList (w_output w)) (w_custom w ''output''))
       (\<lambda>output.
     Option.bind (create_section ''tone'' df (SelStr (w_tone w)) (w_custom w ''tone''))
       (\<lambda>tone.
     Some (generate_prompt
             [(''role'', role), (''goal'', goal), (''audience'', audience),
              (''context'', context), (''output'', output), (''tone'', tone)]
             df (w_recursive_feedback w))))))))"

section \<open>Operations on the element table\<close>

datatype error = ValidationError | DuplicateError | SchemaError

text \<open>
  Every operation takes the frame that \<open>load_data\<close> read and returns its outcome
  (\<open>None\<close> for success) together with the frame that the file holds afterwards, the one
  handed to \<open>DataManager.save_data\<close>; an operation that returns before the save leaves
  the table as it was.
\<close>

text \<open>
  The handler of the "Add Element" button in \<open>ElementCreator.render\<close>. The duplicate
  test compares the cells of the frame with the title as it was typed and with the type.
\<close>

definition add_element ::
  "dataframe \<Rightarrow> string \<Rightarrow> string \<Rightarrow> string \<Rightarrow> error option \<times> dataframe" where
  "add_element df new_title element_type new_content =
     (if strip new_title = [] then (Some ValidationError, df)
      else if strip new_content = [] then (Some ValidationError, df)
      else if list_ex (\<lambda>e. eq_str (title e) new_title \<and> eq_str (etype e) element_type) df
        then (Some DuplicateError, df)
      else (None, df @ [\<lparr> title = text_cell (strip new_title),
                           etype = text_cell element_type,
                           content = text_cell (strip new_content) \<rparr>]))"

text \<open>
  The handler of the "Update" button in \<open>ElementEditor._render_element\<close>.
  \<open>orig_index\<close> is a label of the table's own index, so it is below the length of the
  table; for a label that is not there, \<open>df.at[...] = ...\<close> enlarges the frame by a row.
  The three cells of the row become strings and the other rows stay as they are. What
  \<open>pandas\<close> does when a string is set in a column that holds no string depends on its
  version; the properties of the update below are about frames of strings.
\<close>

definition update_element ::
  "dataframe \<Rightarrow> nat \<Rightarrow> string \<Rightarrow> string \<Rightarrow> string \<Rightarrow> error option \<times> dataframe" where
  "update_element df orig_index new_title new_type new_content =
     (if strip new_title = [] then (Some ValidationError, df)
      else if strip new_content = [] then (Some ValidationError, df)
      else
        let row = \<lparr> title = text_cell (strip new_title), etype = text_cell new_type,
                    content = text_cell (strip new_content) \<rparr>
        in (None, if orig_index < length df then df[orig_index := row] else df @ [row]))"

text \<open>
  The invariant of the element table: a (title, type) pair occurs once among the rows as
  \<open>to_csv\<close> writes them.
\<close>

definition unique_title_type :: "dataframe \<Rightarrow> bool" where
  "unique_title_type df = distinct (map (\<lambda>e. (written (title e), written (etype e))) df)"

text \<open>Frames whose titles and types are strings, and frames of strings.\<close>

definition text_keys :: "dataframe \<Rightarrow> bool" where
  "text_keys df = list_all (\<lambda>e. is_str (title e) \<and> is_str (etype e)) df"

definition text_frame :: "dataframe \<Rightarrow> bool" where
  "text_frame df =
     list_all (\<lambda>e. is_str (title e) \<and> is_str (etype e) \<and> is_str (content e)) df"

text \<open>
  An uploaded table as \<open>pd.read_csv\<close> returns it: the header and the rows, every row
  with one cell for each column of the header.
\<close>

record csv_table =
  columns :: "string list"
  rows :: "cell list list"

definition cell_at :: "string list \<Rightarrow> cell list \<Rightarrow> string \<Rightarrow> cell" where
  "cell_at cols row c = (case map_of (zip cols row) c of Some v \<Rightarrow> v | None \<Rightarrow> NaN)"

text \<open>\<open>new_df[CSV_COLUMNS]\<close>: the three columns, in the order of \<open>CSV_COLUMNS\<close>.\<close>

definition select_csv_columns :: "csv_table \<Rightarrow> dataframe" where
  "select_csv_columns t =
     map (\<lambda>row. \<lparr> title = cell_at (columns t) row ''title'',
                  etype = cell_at (columns t) row ''type'',
                  content = cell_at (columns t) row ''content'' \<rparr>) (rows t)"

text \<open>The upload branch of \<open>SidebarTools.render\<close>, for a file that \<open>pd.read_csv\<close> parsed.\<close>

definition replace_all :: "dataframe \<Rightarrow> csv_table \<Rightarrow> error option \<times> dataframe" where
  "replace_all df new_df =
     (if \<not> list_all (\<lambda>c. c \<in> set (columns new_df)) CSV_COLUMNS
        then (Some SchemaError, df)
      else (None, select_csv_columns new_df))"

section \<open>The prompt history\<close>

text \<open>
  The value of \<open>datetime.now(tz=TZ)\<close>: the fields of the local time and the offset of
  the zone from UTC at that moment, in minutes. A \<open>datetime\<close> has a year up to 9999,
  two-digit month, day, hour, minute and second, and a microsecond below a million.
\<close>

record aware_datetime =
  dt_year :: nat
  dt_month :: nat
  dt_day :: nat
  dt_hour :: nat
  dt_minute :: nat
  dt_second :: nat
  dt_microsecond :: nat
  dt_utcoffset :: int

text \<open>\<open>"%0wd" % n\<close> for a number of at most \<open>w\<close> digits.\<close>

fun zero_pad :: "nat \<Rightarrow> nat \<Rightarrow> string" where
  "zero_pad 0 n = []"
| "zero_pad (Suc w) n = zero_pad w (n div 10) @ [''0123456789'' ! (n mod 10)]"

text \<open>\<open>datetime.isoformat()\<close> of an aware value whose offset is a whole number of minutes.\<close>

definition format_offset :: "int \<Rightarrow> string" where
  "format_offset off =
     (let sign = (if off < 0 then ''-'' else ''+'');
          m = nat \<bar>off\<bar>
      in sign @ zero_pad 2 (m div 60) @ '':'' @ zero_pad 2 (m mod 60))"

definition isoformat :: "aware_datetime \<Rightarrow> string" where
  "isoformat d =
     zero_pad 4 (dt_year d) @ ''-'' @ zero_pad 2 (dt_month d) @ ''-'' @ zero_pad 2 (dt_day d)
       @ ''T'' @ zero_pad 2 (dt_hour d) @ '':'' @ zero_pad 2 (dt_minute d)
       @ '':'' @ zero_pad 2 (dt_second d)
       @ (if dt_microsecond d \<noteq> 0 then ''.'' @ zero_pad 6 (dt_microsecond d) else [])
       @ format_offset (dt_utcoffset d)"

text \<open>
  The moment an aware value denotes, in microseconds of UTC counted from the start of
  year 1, as \<open>datetime\<close> compares aware values: the proleptic Gregorian ordinal of the
  date, the time of day, minus the offset.
\<close>

definition is_leap :: "nat \<Rightarrow> bool" where
  "is_leap y = (y mod 4 = 0 \<and> (if y mod 100 = 0 then y mod 400 = 0 else True))"

definition days_before_year :: "nat \<Rightarrow> nat" where
  "days_before_year y =
     (let z = y - 1 in z * 365 + z div 4 - z div 100 + z div 400)"

definition days_before_month :: "nat \<Rightarrow> nat \<Rightarrow> nat" where
  "days_before_month y m =
     [0, 0, 31, 59, 90, 120, 151, 181, 212, 243, 273, 304, 334] ! m
       + (if m > 2 \<and> is_leap y then 1 else 0)"

definition toordinal :: "aware_datetime \<Rightarrow> nat" where
  "toordinal d = days_before_year (dt_year d) + days_before_month (dt_year d) (dt_month d)
       + dt_day d"

definition utc_micros :: "aware_datetime \<Rightarrow> int" where
  "utc_micros d =
     ((((int (toordinal d) * 24 + int (dt_hour d)) * 60 + int (dt_minute d)
          - dt_utcoffset d) * 60) + int (dt_second d)) * 1000000 + int (dt_microsecond d)"

record prompt_record =
  name :: string
  timestamp :: string
  prompt :: string

text \<open>
  \<open>DataManager.save_prompt\<close>; \<open>now\<close> is what \<open>datetime.now(tz=TZ)\<close> returns inside
  \<open>_iso_now\<close>.
\<close>

definition save_prompt ::
  "prompt_record list \<Rightarrow> aware_datetime \<Rightarrow> string \<Rightarrow> string \<Rightarrow> prompt_record list" where
  "save_prompt df now nm p = df @ [\<lparr> name = nm, timestamp = isoformat now, prompt = p \<rparr>]"

text \<open>The order of Python strings: by code point, a proper prefix first.\<close>

fun str_less :: "string \<Rightarrow> string \<Rightarrow> bool" where
  "str_less [] [] = False"
| "str_less [] (y # ys) = True"
| "str_less (x # xs) [] = False"
| "str_less (x # xs) (y # ys) =
     ((of_char x :: nat) < of_char y \<or> (x = y \<and> str_less xs ys))"

text \<open>
  \<open>df.sort_values(by="timestamp", ascending=False)\<close> in \<open>PromptBrowser.render\<close>:
  the rows by descending timestamp string; rows with equal timestamps keep their order.
\<close>

fun insert_desc :: "prompt_record \<Rightarrow> prompt_record list \<Rightarrow> prompt_record list" where
  "insert_desc r [] = [r]"
| "insert_desc r (x # xs) =
     (if str_less (timestamp r) (timestamp x) then x # insert_desc r xs else r # x # xs)"

definition list_sorted_desc :: "prompt_record list \<Rightarrow> prompt_record list" where
  "list_sorted_desc df = foldr insert_desc df []"


section \<open>The multi-choice block in the words of the specification\<close>




section \<open>Properties of the loops of the prompt builder\<close>

lemma generate_loop_acc:
  "generate_loop df sels acc = acc @ generate_loop df sels []"
proof (induction sels arbitrary: acc)
  case Nil
  show ?case by simp
next
  case (Cons sd sels)
  obtain s d where sd: "sd = (s, d)" by (cases sd)
  show ?case
  proof (cases "section_block df s d")
    case None
    then show ?thesis using Cons.IH [of acc] by (simp add: sd)
  next
    case (Some b)
    then show ?thesis
      using Cons.IH [of "acc @ [b]"] Cons.IH [of "[b]"] by (simp add: sd)
  qed
qed

lemma generate_loop_append:
  "generate_loop df (xs @ ys) acc = generate_loop df ys (generate_loop df xs acc)"
proof (induction xs arbitrary: acc)
  case Nil
  show ?case by simp
next
  case (Cons sd xs)
  obtain s d where sd: "sd = (s, d)" by (cases sd)
  show ?case using Cons.IH by (simp add: sd split: option.splits)
qed

lemma generate_loop_all_skipped:
  "\<forall>sd \<in> set sels. skip_logic (selected (snd sd)) \<Longrightarrow> generate_loop df sels acc = acc"
proof (induction sels)
  case Nil
  show ?case by simp
next
  case (Cons sd sels)
  obtain s d where sd: "sd = (s, d)" by (cases sd)
  from Cons.prems have "skip_logic (selected d)" by (simp add: sd)
  then have "section_block df s d = None" by (simp add: section_block_def)
  then show ?case using Cons by (simp add: sd)
qed

lemma collect_parts_acc:
  "collect_parts df items acc = acc @ collect_parts df items []"
proof (induction items arbitrary: acc)
  case Nil
  show ?case by simp
next
  case (Cons t items)
  show ?case
    using Cons.IH [of acc] Cons.IH [of "acc @ [the (get_content_by_title df t)]"]
      Cons.IH [of "[the (get_content_by_title df t)]"]
    by (auto split: option.splits)
qed

lemma collect_parts_append:
  "collect_parts df (xs @ ys) acc = collect_parts df ys (collect_parts df xs acc)"
  by (induction xs arbitrary: acc) (simp_all split: option.splits)

lemma generate_prompt_block_None:
  assumes "section_block df k d = None"
  shows "generate_prompt (pre @ (k, d) # post) df rf = generate_prompt (pre @ post) df rf"
  using assms by (simp add: generate_prompt_def generate_loop_append)

lemma generate_prompt_block_cong:
  assumes "section_block df k d = section_block df k d'"
  shows "generate_prompt (pre @ (k, d) # post) df rf
           = generate_prompt (pre @ (k, d') # post) df rf"
  using assms by (simp add: generate_prompt_def generate_loop_append)

lemma collect_parts_only_skip:
  "set items \<subseteq> {''Skip''} \<Longrightarrow> collect_parts df items acc = acc"
  by (induction items) simp_all

lemma collect_parts_miss:
  assumes "get_content_by_title df t = None"
  shows "collect_parts df (xs @ t # ys) acc = collect_parts df (xs @ ys) acc"
  using assms by (simp add: collect_parts_append)

lemma skip_logic_list:
  "skip_logic (SelList l) \<longleftrightarrow> set l \<subseteq> {''Skip''}"
proof (cases l)
  case Nil
  then show ?thesis by (simp add: skip_logic_def)
next
  case (Cons x l')
  then show ?thesis by (auto simp: skip_logic_def)
qed

lemma section_block_drop_item:
  assumes miss: "get_content_by_title df t = None"
    and multi: "k \<in> set multi_sections"
    and sel: "selected d = SelList (xs @ t # ys)"
    and rest: "custom d = [] \<or> \<not> skip_logic (SelList (xs @ ys))"
  shows "section_block df k d = section_block df k (d\<lparr>selected := SelList (xs @ ys)\<rparr>)"
proof -
  have parts: "collect_parts df (xs @ t # ys) [] = collect_parts df (xs @ ys) []"
    using miss by (rule collect_parts_miss)
  show ?thesis
  proof (cases "skip_logic (SelList (xs @ ys))")
    case True
    then have only: "set (xs @ ys) \<subseteq> {''Skip''}" by (simp add: skip_logic_list)
    from True rest have nocustom: "custom d = []" by simp
    have "collect_parts df (xs @ t # ys) [] = []"
      using parts collect_parts_only_skip [OF only] by simp
    then have "section_block df k d = None"
      using multi sel nocustom by (simp add: section_block_def Let_def)
    moreover have "section_block df k (d\<lparr>selected := SelList (xs @ ys)\<rparr>) = None"
      using True by (simp add: section_block_def Let_def)
    ultimately show ?thesis by simp
  next
    case False
    then have "\<not> skip_logic (SelList (xs @ t # ys))"
      by (auto simp: skip_logic_list)
    then show ?thesis
      using False multi sel parts by (simp add: section_block_def Let_def)
  qed
qed

lemma section_block_single_nothing:
  assumes miss: "get_content_by_title df t = None"
    and single: "k \<notin> set multi_sections"
    and sel: "selected d = SelStr t"
    and chosen: "t \<noteq> ''Write your own''"
  shows "section_block df k d = None"
  using assms by (auto simp: section_block_def Let_def)

subsection \<open>The loop body and the specification's block\<close>











subsection \<open>Cells\<close>

lemma written_text_cell: "written (text_cell s) = s"
  by (cases s) simp_all

lemma eq_str_written: "is_str c \<Longrightarrow> eq_str c s \<longleftrightarrow> written c = s"
  by (cases c) auto

text \<open>
  A title that \<open>read_csv\<close> typed as a number is not found by the duplicate test of
  the add, which compares it with a string: the title 123 is added a second time.
\<close>

lemma add_numeric_title_accepted:
  "add_element
     [\<lparr> title = Other (CHR ''1'') ''23'', etype = text_cell ''role'',
        content = text_cell ''x'' \<rparr>]
     ''123'' ''role'' ''y''
   = (None,
      [\<lparr> title = Other (CHR ''1'') ''23'', etype = text_cell ''role'',
         content = text_cell ''x'' \<rparr>,
       \<lparr> title = text_cell ''123'', etype = text_cell ''role'', content = text_cell ''y'' \<rparr>])
   \<and> \<not> unique_title_type
         [\<lparr> title = Other (CHR ''1'') ''23'', etype = text_cell ''role'',
            content = text_cell ''x'' \<rparr>,
          \<lparr> title = text_cell ''123'', etype = text_cell ''role'',
            content = text_cell ''y'' \<rparr>]"
  by (simp add: add_element_def unique_title_type_def strip_def py_isspace_def)

section \<open>Properties of the stores\<close>

lemma zero_pad_2:
  "zero_pad 2 n = [''0123456789'' ! (n div 10 mod 10), ''0123456789'' ! (n mod 10)]"
proof -
  have "zero_pad (Suc (Suc 0)) n
          = [''0123456789'' ! (n div 10 mod 10), ''0123456789'' ! (n mod 10)]"
    by simp
  moreover have "(2::nat) = Suc (Suc 0)" by simp
  ultimately show ?thesis by (simp only:)
qed

lemma zero_pad_4:
  "zero_pad 4 n = [''0123456789'' ! (n div 10 div 10 div 10 mod 10),
                   ''0123456789'' ! (n div 10 div 10 mod 10),
                   ''0123456789'' ! (n div 10 mod 10), ''0123456789'' ! (n mod 10)]"
proof -
  have "zero_pad (Suc (Suc (Suc (Suc 0)))) n
          = [''0123456789'' ! (n div 10 div 10 div 10 mod 10),
             ''0123456789'' ! (n div 10 div 10 mod 10),
             ''0123456789'' ! (n div 10 mod 10), ''0123456789'' ! (n mod 10)]"
    by simp
  moreover have "(4::nat) = Suc (Suc (Suc (Suc 0)))" by simp
  ultimately show ?thesis by (simp only:)
qed

lemma zero_pad_6:
  "zero_pad 6 n = [''0123456789'' ! (n div 10 div 10 div 10 div 10 div 10 mod 10),
                   ''0123456789'' ! (n div 10 div 10 div 10 div 10 mod 10),
                   ''0123456789'' ! (n div 10 div 10 div 10 mod 10),
                   ''0123456789'' ! (n div 10 div 10 mod 10),
                   ''0123456789'' ! (n div 10 mod 10), ''0123456789'' ! (n mod 10)]"
proof -
  have "zero_pad (Suc (Suc (Suc (Suc (Suc (Suc 0)))))) n
          = [''0123456789'' ! (n div 10 div 10 div 10 div 10 div 10 mod 10),
             ''0123456789'' ! (n div 10 div 10 div 10 div 10 mod 10),
             ''0123456789'' ! (n div 10 div 10 div 10 mod 10),
             ''0123456789'' ! (n div 10 div 10 mod 10),
             ''0123456789'' ! (n div 10 mod 10), ''0123456789'' ! (n mod 10)]"
    by simp
  moreover have "(6::nat) = Suc (Suc (Suc (Suc (Suc (Suc 0)))))" by simp
  ultimately show ?thesis by (simp only:)
qed

lemmas isoformat_eval = isoformat_def format_offset_def zero_pad_2 zero_pad_4 zero_pad_6

lemmas utc_micros_eval = utc_micros_def toordinal_def days_before_year_def
  days_before_month_def is_leap_def

lemma distinct_list_update_fresh:
  assumes "distinct xs"
    and "\<forall>j < length xs. j \<noteq> i \<longrightarrow> xs ! j \<noteq> v"
  shows "distinct (xs[i := v])"
proof (cases "i < length xs")
  case False
  then show ?thesis using assms(1) by (simp add: list_update_beyond)
next
  case True
  show ?thesis
    unfolding distinct_conv_nth
  proof (intro allI impI)
    fix a b
    assume a: "a < length (xs[i := v])" and b: "b < length (xs[i := v])" and ab: "a \<noteq> b"
    then have a': "a < length xs" and b': "b < length xs" by simp_all
    show "xs[i := v] ! a \<noteq> xs[i := v] ! b"
    proof (cases "a = i")
      case True
      then have "b \<noteq> i" using ab by simp
      then show ?thesis using True a' b' assms(2) by (auto simp: nth_list_update)
    next
      case False
      show ?thesis
      proof (cases "b = i")
        case True
        then show ?thesis using False a' b' assms(2) by (auto simp: nth_list_update)
      next
        case bi: False
        then show ?thesis
          using False a' b' ab assms(1) by (simp add: nth_list_update distinct_conv_nth)
      qed
    qed
  qed
qed


section \<open>The assembled prompt\<close>

text \<open>
  C1. For the table with the role "Helpful Assistant" (content "You are a helpful
  assistant.") and the tone "Concise" (content "Be concise."), the selection that picks
  these two and skips the four other sections, and no recursive feedback, the prompt is
  exactly "Role: You are a helpful assistant.", a blank line, "Tone: Be concise.": a
  single-choice section is one line of header and content, and the blocks are joined by
  a double newline in the order of the sections.
\<close>

theorem example_role_and_tone:
  "render
     [\<lparr> title = text_cell ''Helpful Assistant'', etype = text_cell ''role'',
        content = text_cell ''You are a helpful assistant.'' \<rparr>,
      \<lparr> title = text_cell ''Concise'', etype = text_cell ''tone'',
        content = text_cell ''Be concise.'' \<rparr>]
     \<lparr> w_role = ''Helpful Assistant'', w_goal = ''Skip'', w_audience = [''Skip''],
       w_context = [''Skip''], w_output = [''Skip''], w_tone = ''Concise'',
       w_custom = (\<lambda>element_type. []), w_recursive_feedback = False \<rparr>
   = Some (''Role: You are a helpful assistant.'' @ [NL, NL] @ ''Tone: Be concise.'')"
  by code_simp



text \<open>
  C7. Whatever the table, when the selection of every section is skipped (the string
  "Skip", the empty list, or a list holding only "Skip") and recursive feedback is off,
  the prompt is the empty string.
\<close>

theorem all_skipped_gives_empty_prompt:
  assumes "\<forall>sd \<in> set selections. skip_logic (selected (snd sd))"
  shows "generate_prompt selections df False = []"
  using generate_loop_all_skipped [OF assms, of df "[]"]
  by (simp add: generate_prompt_def)

theorem all_skipped_gives_empty_prompt_witness:
  "generate_prompt
     [(''role'', \<lparr> selected = SelStr ''Skip'', custom = [], elements = [] \<rparr>),
      (''goal'', \<lparr> selected = SelStr ''Skip'', custom = [], elements = [] \<rparr>),
      (''audience'', \<lparr> selected = SelList [], custom = [], elements = [] \<rparr>),
      (''context'', \<lparr> selected = SelList [''Skip''], custom = [], elements = [] \<rparr>),
      (''output'', \<lparr> selected = SelList [''Skip'', ''Skip''], custom = [], elements = [] \<rparr>),
      (''tone'', \<lparr> selected = SelStr ''Skip'', custom = [], elements = [] \<rparr>)]
     [\<lparr> title = text_cell ''Skip'', etype = text_cell ''role'',
        content = text_cell ''never used'' \<rparr>] False = []"
  by (rule all_skipped_gives_empty_prompt) (simp add: skip_logic_def)

text \<open>
  C8. A chosen title \<open>t\<close> that no row of the table carries never makes the assembler
  fail (it returns a string for every input) and adds nothing. The loop over the chosen
  titles collects what it collects without \<open>t\<close>. In a multi-choice section the
  prompt is the one obtained without \<open>t\<close> in the selection; the remaining selection
  is not one that the skip test drops together with a custom text. In a single-choice
  section that selects \<open>t\<close> the prompt is the one obtained without the section. The
  sections before and after are assembled as they are.
\<close>

theorem lookup_miss_contributes_nothing:
  assumes "get_content_by_title df t = None"
  shows "collect_parts df (xs @ t # ys) parts = collect_parts df (xs @ ys) parts
       \<and> (k \<in> set multi_sections \<and> selected d = SelList (xs @ t # ys)
            \<and> (custom d = [] \<or> \<not> skip_logic (SelList (xs @ ys)))
          \<longrightarrow> generate_prompt (pre @ (k, d) # post) df rf
                = generate_prompt (pre @ (k, d\<lparr>selected := SelList (xs @ ys)\<rparr>) # post) df rf)
       \<and> (k' \<notin> set multi_sections \<and> selected d' = SelStr t \<and> t \<noteq> ''Write your own''
          \<longrightarrow> generate_prompt (pre' @ (k', d') # post') df rf
                = generate_prompt (pre' @ post') df rf)"
proof (intro conjI impI)
  show "collect_parts df (xs @ t # ys) parts = collect_parts df (xs @ ys) parts"
    using assms by (rule collect_parts_miss)
next
  assume a: "k \<in> set multi_sections \<and> selected d = SelList (xs @ t # ys)
               \<and> (custom d = [] \<or> \<not> skip_logic (SelList (xs @ ys)))"
  have "section_block df k d = section_block df k (d\<lparr>selected := SelList (xs @ ys)\<rparr>)"
    using a by (intro section_block_drop_item) (simp_all add: assms)
  then show "generate_prompt (pre @ (k, d) # post) df rf
               = generate_prompt (pre @ (k, d\<lparr>selected := SelList (xs @ ys)\<rparr>) # post) df rf"
    by (rule generate_prompt_block_cong)
next
  assume b: "k' \<notin> set multi_sections \<and> selected d' = SelStr t \<and> t \<noteq> ''Write your own''"
  have "section_block df k' d' = None"
    using assms
  proof (rule section_block_single_nothing)
    show "k' \<notin> set multi_sections" using b by blast
    show "selected d' = SelStr t" using b by blast
    show "t \<noteq> ''Write your own''" using b by blast
  qed
  then show "generate_prompt (pre' @ (k', d') # post') df rf = generate_prompt (pre' @ post') df rf"
    by (rule generate_prompt_block_None)
qed

theorem lookup_miss_contributes_nothing_witness:
  "(let df = [\<lparr> title = text_cell ''Developers'', etype = text_cell ''audience'',
                 content = text_cell ''Software developers.'' \<rparr>,
              \<lparr> title = text_cell ''Concise'', etype = text_cell ''tone'',
                 content = text_cell ''Be concise.'' \<rparr>];
        tone = (''tone'', \<lparr> selected = SelStr ''Concise'', custom = [], elements = [] \<rparr>)
    in get_content_by_title df ''Deleted'' = None
       \<and> generate_prompt
            [(''audience'', \<lparr> selected = SelList [''Deleted'', ''Developers''], custom = [],
                              elements = [] \<rparr>), tone] df False
          = generate_prompt
              [(''audience'', \<lparr> selected = SelList [''Developers''], custom = [],
                                elements = [] \<rparr>), tone] df False
       \<and> generate_prompt
            [(''role'', \<lparr> selected = SelStr ''Deleted'', custom = [], elements = [] \<rparr>), tone]
            df False
          = generate_prompt [tone] df False)"
proof -
  let ?df = "[\<lparr> title = text_cell ''Developers'', etype = text_cell ''audience'',
                 content = text_cell ''Software developers.'' \<rparr>,
              \<lparr> title = text_cell ''Concise'', etype = text_cell ''tone'',
                 content = text_cell ''Be concise.'' \<rparr>]"
  have miss: "get_content_by_title ?df ''Deleted'' = None" by simp
  show ?thesis
    using miss
      lookup_miss_contributes_nothing [OF miss,
        where k = "''audience''"
          and d = "\<lparr> selected = SelList [''Deleted'', ''Developers''], custom = [],
                     elements = [] \<rparr>"
          and xs = "[]" and ys = "[''Developers'']" and pre = "[]"
          and post = "[(''tone'', \<lparr> selected = SelStr ''Concise'', custom = [],
                                  elements = [] \<rparr>)]"
          and rf = False and k' = "''role''"
          and d' = "\<lparr> selected = SelStr ''Deleted'', custom = [], elements = [] \<rparr>"
          and pre' = "[]"
          and post' = "[(''tone'', \<lparr> selected = SelStr ''Concise'', custom = [],
                                   elements = [] \<rparr>)]"]
    by (simp add: multi_sections_def)
qed

text \<open>
  C9. When the selection of every section is skipped and recursive feedback is on, the
  prompt is the double newline followed by the fixed instruction: it starts with two
  newline characters although there is no body before them.
\<close>

theorem feedback_after_empty_body:
  assumes "\<forall>sd \<in> set selections. skip_logic (selected (snd sd))"
  shows "generate_prompt selections df True =
           [NL, NL] @ ''Before you provide the response, ask any clarifying questions ''
             @ ''that would improve the output. If you already have enough info, proceed.''"
  using generate_loop_all_skipped [OF assms, of df "[]"]
  by (simp add: generate_prompt_def feedback_text_def)

theorem feedback_after_empty_body_witness:
  "generate_prompt
     [(''role'', \<lparr> selected = SelStr ''Skip'', custom = [], elements = [] \<rparr>),
      (''audience'', \<lparr> selected = SelList [''Skip''], custom = [], elements = [] \<rparr>),
      (''tone'', \<lparr> selected = SelStr ''Skip'', custom = [], elements = [] \<rparr>)]
     [] True =
   [NL, NL] @ ''Before you provide the response, ask any clarifying questions ''
     @ ''that would improve the output. If you already have enough info, proceed.''"
  by (rule feedback_after_empty_body) (simp add: skip_logic_def)

text \<open>
  C10. A table with the role "Blank" and the audience "Nobody", both stored with an
  empty content, and the tone "Concise": \<open>read_csv\<close> gives the two empty contents as
  missing values. With the role "Blank", the audience "Nobody" and the tone "Concise"
  chosen, the two elements with the empty content are found, and each adds the text
  "nan": the prompt is "Role: nan", "Target Audience:" with the line "nan", and "Tone:
  Be concise.", where a lookup miss would leave only the tone.
\<close>

theorem missing_content_emits_nan:
  "render
     [\<lparr> title = text_cell ''Blank'', etype = text_cell ''role'', content = NaN \<rparr>,
      \<lparr> title = text_cell ''Nobody'', etype = text_cell ''audience'', content = NaN \<rparr>,
      \<lparr> title = text_cell ''Concise'', etype = text_cell ''tone'',
        content = text_cell ''Be concise.'' \<rparr>]
     \<lparr> w_role = ''Blank'', w_goal = ''Skip'', w_audience = [''Nobody''],
       w_context = [''Skip''], w_output = [''Skip''], w_tone = ''Concise'',
       w_custom = (\<lambda>element_type. []), w_recursive_feedback = False \<rparr>
   = Some (''Role: nan'' @ [NL, NL] @ ''Target Audience:'' @ [NL] @ ''nan'' @ [NL, NL]
             @ ''Tone: Be concise.'')"
  by code_simp

section \<open>The element table and the history\<close>

text \<open>
  C3, as the specification states it, fails: an update that gives the second row of a
  table the title and the type of the first row succeeds, and the table it persists
  holds the pair twice.
\<close>

theorem update_breaks_uniqueness:
  "unique_title_type
     [\<lparr> title = text_cell ''A'', etype = text_cell ''role'', content = text_cell ''x'' \<rparr>,
      \<lparr> title = text_cell ''B'', etype = text_cell ''role'', content = text_cell ''y'' \<rparr>]
   \<and> update_element
        [\<lparr> title = text_cell ''A'', etype = text_cell ''role'', content = text_cell ''x'' \<rparr>,
         \<lparr> title = text_cell ''B'', etype = text_cell ''role'', content = text_cell ''y'' \<rparr>]
        1 ''A'' ''role'' ''y''
      = (None,
         [\<lparr> title = text_cell ''A'', etype = text_cell ''role'', content = text_cell ''x'' \<rparr>,
          \<lparr> title = text_cell ''A'', etype = text_cell ''role'', content = text_cell ''y'' \<rparr>])
   \<and> \<not> unique_title_type
         [\<lparr> title = text_cell ''A'', etype = text_cell ''role'', content = text_cell ''x'' \<rparr>,
          \<lparr> title = text_cell ''A'', etype = text_cell ''role'', content = text_cell ''y'' \<rparr>]"
  by (simp add: unique_title_type_def update_element_def strip_def py_isspace_def)

text \<open>
  C3, amended. Take a table in which no two rows share title and type. A successful add
  of a title that has no surrounding whitespace, to a table whose titles and types are
  read as strings, leaves such a table. A successful update of a table whose cells are
  read as strings leaves such a table when no row other than the updated one already has
  the new trimmed title with the new type. The update itself makes no such check.
\<close>

theorem add_update_preserve_uniqueness:
  assumes "unique_title_type df"
  shows "(text_keys df \<and> strip new_title = new_title
            \<and> add_element df new_title element_type new_content = (None, df')
          \<longrightarrow> unique_title_type df')
       \<and> (text_frame df \<and> update_element df i t ty c = (None, df'')
            \<and> (\<forall>j < length df. j \<noteq> i \<longrightarrow>
                  \<not> (written (title (df ! j)) = strip t \<and> written (etype (df ! j)) = ty))
          \<longrightarrow> unique_title_type df'')"
proof (intro conjI impI)
  let ?key = "\<lambda>e. (written (title e), written (etype e))"
  assume a: "text_keys df \<and> strip new_title = new_title
               \<and> add_element df new_title element_type new_content = (None, df')"
  then have strs: "text_keys df" and trimmed: "strip new_title = new_title"
    and added: "add_element df new_title element_type new_content = (None, df')" by simp_all
  from added
  have fresh: "\<not> list_ex (\<lambda>e. eq_str (title e) new_title \<and> eq_str (etype e) element_type) df"
    and df': "df' = df @ [\<lparr> title = text_cell (strip new_title),
                           etype = text_cell element_type,
                           content = text_cell (strip new_content) \<rparr>]"
    by (auto simp: add_element_def split: if_splits)
  have "(new_title, element_type) \<notin> set (map ?key df)"
  proof
    assume "(new_title, element_type) \<in> set (map ?key df)"
    then obtain e where e: "e \<in> set df" and t: "written (title e) = new_title"
      and ty: "written (etype e) = element_type" by auto
    from strs e have "is_str (title e)" and "is_str (etype e)"
      by (auto simp: text_keys_def list_all_iff)
    then have "eq_str (title e) new_title \<and> eq_str (etype e) element_type"
      using t ty by (simp add: eq_str_written)
    then show False using fresh e by (auto simp: list_ex_iff)
  qed
  then show "unique_title_type df'"
    using assms trimmed by (simp add: df' unique_title_type_def written_text_cell)
next
  let ?key = "\<lambda>e. (written (title e), written (etype e))"
  let ?row = "\<lparr> title = text_cell (strip t), etype = text_cell ty,
                content = text_cell (strip c) \<rparr>"
  assume u: "text_frame df \<and> update_element df i t ty c = (None, df'')
               \<and> (\<forall>j < length df. j \<noteq> i \<longrightarrow>
                     \<not> (written (title (df ! j)) = strip t \<and> written (etype (df ! j)) = ty))"
  then have upd: "update_element df i t ty c = (None, df'')"
    and others: "\<forall>j < length df. j \<noteq> i \<longrightarrow>
                   \<not> (written (title (df ! j)) = strip t \<and> written (etype (df ! j)) = ty)"
    by simp_all
  from upd have df'': "df'' = (if i < length df then df[i := ?row] else df @ [?row])"
    by (auto simp: update_element_def Let_def split: if_splits)
  from others have keys: "\<forall>j < length (map ?key df). j \<noteq> i \<longrightarrow> map ?key df ! j \<noteq> ?key ?row"
    by (simp add: written_text_cell)
  show "unique_title_type df''"
  proof (cases "i < length df")
    case True
    have "distinct ((map ?key df)[i := ?key ?row])"
      using assms keys unfolding unique_title_type_def by (rule distinct_list_update_fresh)
    then show ?thesis using True by (simp add: df'' unique_title_type_def map_update)
  next
    case False
    have "?key ?row \<notin> set (map ?key df)"
    proof
      assume "?key ?row \<in> set (map ?key df)"
      then obtain j where "j < length (map ?key df)" and "map ?key df ! j = ?key ?row"
        by (auto simp: in_set_conv_nth)
      moreover from this False have "j \<noteq> i" by simp
      ultimately show False using keys by blast
    qed
    then show ?thesis using assms False by (simp add: df'' unique_title_type_def)
  qed
qed

theorem add_update_preserve_uniqueness_witness:
  "unique_title_type
     [\<lparr> title = text_cell ''A'', etype = text_cell ''role'', content = text_cell ''x'' \<rparr>,
      \<lparr> title = text_cell ''B'', etype = text_cell ''role'', content = text_cell ''y'' \<rparr>,
      \<lparr> title = text_cell ''C'', etype = text_cell ''tone'', content = text_cell ''z'' \<rparr>]
   \<and> unique_title_type
       [\<lparr> title = text_cell ''A'', etype = text_cell ''role'', content = text_cell ''x'' \<rparr>,
        \<lparr> title = text_cell ''A'', etype = text_cell ''tone'', content = text_cell ''w'' \<rparr>]"
proof -
  let ?df = "[\<lparr> title = text_cell ''A'', etype = text_cell ''role'',
                content = text_cell ''x'' \<rparr>,
              \<lparr> title = text_cell ''B'', etype = text_cell ''role'',
                content = text_cell ''y'' \<rparr>]"
  have u: "unique_title_type ?df" by (simp add: unique_title_type_def)
  show ?thesis
    using add_update_preserve_uniqueness [OF u,
        where new_title = "''C''" and element_type = "''tone''" and new_content = "''  z ''"
          and df' = "[\<lparr> title = text_cell ''A'', etype = text_cell ''role'',
                        content = text_cell ''x'' \<rparr>,
                      \<lparr> title = text_cell ''B'', etype = text_cell ''role'',
                        content = text_cell ''y'' \<rparr>,
                      \<lparr> title = text_cell ''C'', etype = text_cell ''tone'',
                        content = text_cell ''z'' \<rparr>]"
          and i = 1 and t = "'' A''" and ty = "''tone''" and c = "''w ''"
          and df'' = "[\<lparr> title = text_cell ''A'', etype = text_cell ''role'',
                         content = text_cell ''x'' \<rparr>,
                       \<lparr> title = text_cell ''A'', etype = text_cell ''tone'',
                         content = text_cell ''w'' \<rparr>]"]
    by (simp add: add_element_def update_element_def strip_def py_isspace_def
          text_keys_def text_frame_def less_Suc_eq numeral_2_eq_2)
qed

text \<open>
  C4. Add on the table holding the role "Foo", with the title " Foo" (a leading space)
  and the type role: the trimmed title is "Foo", the table holds that title with that
  type, and the add succeeds and appends a second role "Foo".
\<close>

theorem add_untrimmed_duplicate_accepted:
  "strip '' Foo'' = ''Foo''
   \<and> add_element
        [\<lparr> title = text_cell ''Foo'', etype = text_cell ''role'', content = text_cell ''x'' \<rparr>]
        '' Foo'' ''role'' ''y''
     = (None,
        [\<lparr> title = text_cell ''Foo'', etype = text_cell ''role'', content = text_cell ''x'' \<rparr>,
         \<lparr> title = text_cell ''Foo'', etype = text_cell ''role'',
           content = text_cell ''y'' \<rparr>])"
  by (simp add: add_element_def strip_def py_isspace_def)

text \<open>
  C5, as the specification states it, fails: an uploaded table with the columns title,
  type, content and notes does not have exactly the canonical columns, and it is
  accepted; the stored table is replaced by its rows, cut down to the three columns.
\<close>

theorem extra_column_accepted:
  "set [''title'', ''type'', ''content'', ''notes''] \<noteq> set CSV_COLUMNS
   \<and> replace_all
        [\<lparr> title = text_cell ''Old'', etype = text_cell ''tone'',
           content = text_cell ''kept?'' \<rparr>]
        \<lparr> columns = [''title'', ''type'', ''content'', ''notes''],
          rows = [[text_cell ''New'', text_cell ''role'', text_cell ''You are new.'',
                   text_cell ''extra'']] \<rparr>
      = (None, [\<lparr> title = text_cell ''New'', etype = text_cell ''role'',
                  content = text_cell ''You are new.'' \<rparr>])"
proof (rule conjI)
  have "''notes'' \<in> set [''title'', ''type'', ''content'', ''notes'']" by simp
  moreover have "''notes'' \<notin> set CSV_COLUMNS" by (simp add: CSV_COLUMNS_def)
  ultimately show "set [''title'', ''type'', ''content'', ''notes''] \<noteq> set CSV_COLUMNS"
    by metis
next
  show "replace_all
        [\<lparr> title = text_cell ''Old'', etype = text_cell ''tone'',
           content = text_cell ''kept?'' \<rparr>]
        \<lparr> columns = [''title'', ''type'', ''content'', ''notes''],
          rows = [[text_cell ''New'', text_cell ''role'', text_cell ''You are new.'',
                   text_cell ''extra'']] \<rparr>
      = (None, [\<lparr> title = text_cell ''New'', etype = text_cell ''role'',
                  content = text_cell ''You are new.'' \<rparr>])"
    by (simp add: replace_all_def CSV_COLUMNS_def select_csv_columns_def cell_at_def)
qed

text \<open>
  C5, amended. The upload fails with the schema error exactly when one of the columns
  title, type, content is missing from the uploaded table, and then the stored table is
  the one before; when the three columns are there, with or without others, the stored
  table becomes the uploaded rows restricted to the three columns.
\<close>

theorem replace_all_schema_check:
  "(fst (replace_all df new_df) = Some SchemaError
      \<longleftrightarrow> \<not> {''title'', ''type'', ''content''} \<subseteq> set (columns new_df))
   \<and> (fst (replace_all df new_df) = Some SchemaError \<longrightarrow> snd (replace_all df new_df) = df)
   \<and> ({''title'', ''type'', ''content''} \<subseteq> set (columns new_df)
        \<longrightarrow> replace_all df new_df = (None, select_csv_columns new_df))"
  by (auto simp: replace_all_def CSV_COLUMNS_def)

theorem replace_all_schema_check_witness:
  "fst (replace_all
          [\<lparr> title = text_cell ''Old'', etype = text_cell ''tone'',
             content = text_cell ''kept'' \<rparr>]
          \<lparr> columns = [''title'', ''type''], rows = [[text_cell ''New'', text_cell ''role'']] \<rparr>)
     = Some SchemaError
   \<and> snd (replace_all
          [\<lparr> title = text_cell ''Old'', etype = text_cell ''tone'',
             content = text_cell ''kept'' \<rparr>]
          \<lparr> columns = [''title'', ''type''], rows = [[text_cell ''New'', text_cell ''role'']] \<rparr>)
     = [\<lparr> title = text_cell ''Old'', etype = text_cell ''tone'', content = text_cell ''kept'' \<rparr>]
   \<and> replace_all
        [\<lparr> title = text_cell ''Old'', etype = text_cell ''tone'', content = text_cell ''kept'' \<rparr>]
        \<lparr> columns = [''content'', ''title'', ''type''],
          rows = [[text_cell ''You are new.'', text_cell ''New'', text_cell ''role'']] \<rparr>
     = (None, [\<lparr> title = text_cell ''New'', etype = text_cell ''role'',
                 content = text_cell ''You are new.'' \<rparr>])"
  using
    replace_all_schema_check
      [of "[\<lparr> title = text_cell ''Old'', etype = text_cell ''tone'',
              content = text_cell ''kept'' \<rparr>]"
          "\<lparr> columns = [''title'', ''type''],
             rows = [[text_cell ''New'', text_cell ''role'']] \<rparr>"]
    replace_all_schema_check
      [of "[\<lparr> title = text_cell ''Old'', etype = text_cell ''tone'',
              content = text_cell ''kept'' \<rparr>]"
          "\<lparr> columns = [''content'', ''title'', ''type''],
             rows = [[text_cell ''You are new.'', text_cell ''New'', text_cell ''role'']] \<rparr>"]
  by (simp add: select_csv_columns_def cell_at_def)

text \<open>
  C6. Two prompts saved in America/Denver on 3 November 2024, the day daylight saving
  time ends: the first at 01:30:12.25 with the offset -06:00, the second 45 minutes
  and 27.75 seconds later, at 01:15:40 with the offset -07:00. The first is the earlier
  moment, and the list sorted by descending timestamp string shows it before the second:
  the older prompt comes first.
\<close>

theorem dst_fall_back_lists_older_first:
  "utc_micros \<lparr> dt_year = 2024, dt_month = 11, dt_day = 3, dt_hour = 1, dt_minute = 30,
                 dt_second = 12, dt_microsecond = 250000, dt_utcoffset = - 360 \<rparr>
     < utc_micros \<lparr> dt_year = 2024, dt_month = 11, dt_day = 3, dt_hour = 1, dt_minute = 15,
                     dt_second = 40, dt_microsecond = 0, dt_utcoffset = - 420 \<rparr>
   \<and> list_sorted_desc
        (save_prompt
           (save_prompt []
              \<lparr> dt_year = 2024, dt_month = 11, dt_day = 3, dt_hour = 1, dt_minute = 30,
                dt_second = 12, dt_microsecond = 250000, dt_utcoffset = - 360 \<rparr>
              ''older'' ''first prompt'')
           \<lparr> dt_year = 2024, dt_month = 11, dt_day = 3, dt_hour = 1, dt_minute = 15,
             dt_second = 40, dt_microsecond = 0, dt_utcoffset = - 420 \<rparr>
           ''newer'' ''second prompt'')
     = [\<lparr> name = ''older'', timestamp = ''2024-11-03T01:30:12.250000-06:00'',
          prompt = ''first prompt'' \<rparr>,
        \<lparr> name = ''newer'', timestamp = ''2024-11-03T01:15:40-07:00'',
          prompt = ''second prompt'' \<rparr>]"
proof (rule conjI)
  show "utc_micros \<lparr> dt_year = 2024, dt_month = 11, dt_day = 3, dt_hour = 1, dt_minute = 30,
                 dt_second = 12, dt_microsecond = 250000, dt_utcoffset = - 360 \<rparr>
     < utc_micros \<lparr> dt_year = 2024, dt_month = 11, dt_day = 3, dt_hour = 1, dt_minute = 15,
                     dt_second = 40, dt_microsecond = 0, dt_utcoffset = - 420 \<rparr>"
    by (simp add: utc_micros_eval)
next
  show "list_sorted_desc
        (save_prompt
           (save_prompt []
              \<lparr> dt_year = 2024, dt_month = 11, dt_day = 3, dt_hour = 1, dt_minute = 30,
                dt_second = 12, dt_microsecond = 250000, dt_utcoffset = - 360 \<rparr>
              ''older'' ''first prompt'')
           \<lparr> dt_year = 2024, dt_month = 11, dt_day = 3, dt_hour = 1, dt_minute = 15,
             dt_second = 40, dt_microsecond = 0, dt_utcoffset = - 420 \<rparr>
           ''newer'' ''second prompt'')
     = [\<lparr> name = ''older'', timestamp = ''2024-11-03T01:30:12.250000-06:00'',
          prompt = ''first prompt'' \<rparr>,
        \<lparr> name = ''newer'', timestamp = ''2024-11-03T01:15:40-07:00'',
          prompt = ''second prompt'' \<rparr>]"
    by (simp add: list_sorted_desc_def save_prompt_def isoformat_eval)
qed

end
